theory Spec2Isabelle
  imports Complex_Main
begin

section \<open>Numbers, vectors and the runtime's array constructor\<close>

text \<open>
  The tiler computes with JavaScript numbers. They are modelled by the reals: rounding of
  binary64 arithmetic is not represented, and neither are \<open>NaN\<close> and the infinities. On
  finite input \<open>getTiles\<close> leaves the finite numbers only through \<open>Math.log\<close> of a
  non-positive argument, that is, for a non-positive scale or tile size; what the model does
  there is said at the definition of \<open>getTiles\<close>.
  \<open>RangeError\<close> is the exception that \<open>Array(n)\<close> throws for an invalid length;
  \<open>NotFinite\<close> marks the one case that the model does not follow.
\<close>

type_synonym Vec2 = "real \<times> real"
type_synonym Vec3 = "real \<times> real \<times> real"

datatype error = RangeError | NotFinite

definition Math_PI :: real where
  "Math_PI = pi"

definition Math_LOG2E :: real where
  "Math_LOG2E = 1 / ln 2"

definition Math_log :: "real \<Rightarrow> real" where
  "Math_log x = ln x"

definition Math_pow :: "real \<Rightarrow> real \<Rightarrow> real" where
  "Math_pow b e = b powr e"

definition Math_floor :: "real \<Rightarrow> real" where
  "Math_floor x = of_int \<lfloor>x\<rfloor>"

text \<open>\<open>Math.round\<close> rounds to the nearest integer, a half towards plus infinity.\<close>

definition Math_round :: "real \<Rightarrow> real" where
  "Math_round x = of_int \<lfloor>x + 1 / 2\<rfloor>"

text \<open>
  \<open>Array(n)\<close> makes an array of length \<open>n\<close> when \<open>n\<close> is an integer with
  \<open>0 \<le> n < 2^32\<close> and throws \<open>RangeError\<close> otherwise; \<open>Array.from(a.keys())\<close> lists the
  indices \<open>0, ..., n - 1\<close>.
\<close>

definition Array_keys :: "real \<Rightarrow> error + real list" where
  "Array_keys n =
     (if n = of_int \<lfloor>n\<rfloor> \<and> 0 \<le> n \<and> n < 2 ^ 32
      then Inr (map real [0 ..< nat \<lfloor>n\<rfloor>])
      else Inl RangeError)"

subsection \<open>Rendering of numbers\<close>

fun show_nat :: "nat \<Rightarrow> string" where
  "show_nat n =
     (if n < 10 then [''0123456789'' ! n]
      else show_nat (n div 10) @ [''0123456789'' ! (n mod 10)])"

definition show_int :: "int \<Rightarrow> string" where
  "show_int i = (if i < 0 then CHR ''-'' # show_nat (nat (- i)) else show_nat (nat i))"

text \<open>
  \<open>Number.prototype.toString\<close> prints an integer below \<open>10^21\<close> in magnitude by its
  decimal digits. The rendering of any other number depends on its binary64 representation
  and is left unspecified.
\<close>

definition Number_toString :: "real \<Rightarrow> string" where
  "Number_toString r =
     (if r = of_int \<lfloor>r\<rfloor> \<and> \<bar>r\<bar> < 10 ^ 21 then show_int \<lfloor>r\<rfloor> else undefined)"

text \<open>\<open>Array.prototype.toString\<close> joins the elements with commas.\<close>

definition Vec3_toString :: "Vec3 \<Rightarrow> string" where
  "Vec3_toString v =
     (case v of (x, y, z) \<Rightarrow>
        Number_toString x @ '','' @ Number_toString y @ '','' @ Number_toString z)"

section \<open>Collaborators of the tiler\<close>

text \<open>
  Modelled from the spec: the class \<open>Extent\<close> (module \<open>./extent\<close>). The spec (4.2)
  says that an extent is constructed from two corner points, order-independent, normalised
  so that the stored minimum is at most the stored maximum component-wise, and that
  \<open>intersects\<close> is true iff the two boxes overlap or touch on both axes.
\<close>

record Extent =
  ext_min :: Vec2
  ext_max :: Vec2

definition new_Extent :: "Vec2 \<Rightarrow> Vec2 \<Rightarrow> Extent" where
  "new_Extent a b =
     \<lparr> ext_min = (min (fst a) (fst b), min (snd a) (snd b)),
       ext_max = (max (fst a) (fst b), max (snd a) (snd b)) \<rparr>"

definition intersects :: "Extent \<Rightarrow> Extent \<Rightarrow> bool" where
  "intersects this other =
     (fst (ext_min other) \<le> fst (ext_max this) \<and>
      snd (ext_min other) \<le> snd (ext_max this) \<and>
      fst (ext_max other) \<ge> fst (ext_min this) \<and>
      snd (ext_max other) \<ge> snd (ext_min this))"

text \<open>
  Modelled from the spec: the state of a \<open>Projection\<close> (module \<open>./projection\<close>) that
  \<open>getTiles\<close> reads: the pixel translation, the scale factor and the viewport's pixel
  dimensions (minimum and maximum corner). Its method \<open>invert\<close>, of which the spec gives
  the signature only, is a parameter of \<open>getTiles\<close> below: it receives the translation and
  the scale of the projection it is called on, and the pixel point.
\<close>

record Projection =
  translate :: Vec2
  scale :: real
  dimensions :: "Vec2 \<times> Vec2"

text \<open>
  Modelled from the spec: the functions \<open>geoScaleToZoom\<close> and \<open>geoZoomToScale\<close> (module
  \<open>./geo\<close>). The spec (4.3) gives \<open>zoom = log2(scale * 2 * pi / tileSize)\<close> and
  \<open>scale = tileSize * 2^zoom / (2 * pi)\<close>.
\<close>

definition geoScaleToZoom :: "real \<Rightarrow> real \<Rightarrow> real" where
  "geoScaleToZoom k tileSize = log 2 (k * (2 * pi) / tileSize)"

definition geoZoomToScale :: "real \<Rightarrow> real \<Rightarrow> real" where
  "geoZoomToScale z tileSize = tileSize * 2 powr z / (2 * pi)"

section \<open>The tiler\<close>

record Tile =
  tile_id :: string
  xyz :: Vec3
  pxExtent :: Extent
  wgs84Extent :: Extent
  isVisible :: bool

record TileResult =
  tiles :: "Tile list"

text \<open>
  The private fields \<open>_tileSize\<close>, \<open>_zoomRange\<close>, \<open>_margin\<close> and \<open>_skipNullIsland\<close> of
  the class.
\<close>

record Tiler =
  f_tileSize :: real
  f_zoomRange :: Vec2
  f_margin :: real
  f_skipNullIsland :: bool

definition new_Tiler :: Tiler where
  "new_Tiler =
     \<lparr> f_tileSize = 256, f_zoomRange = (0, 24), f_margin = 0, f_skipNullIsland = False \<rparr>"

definition clamp :: "real \<Rightarrow> real \<Rightarrow> real \<Rightarrow> real" where
  "clamp num mn mx = max mn (min num mx)"

definition range' :: "real \<Rightarrow> real \<Rightarrow> error + real list" where
  "range' start end' =
     (case Array_keys (1 + end' - start) of
        Inl e \<Rightarrow> Inl e
      | Inr ks \<Rightarrow> Inr (map (\<lambda>v. start + v) ks))"

definition isNearNullIsland :: "real \<Rightarrow> real \<Rightarrow> real \<Rightarrow> bool" where
  "isNearNullIsland x y z =
     (if z \<ge> 7 then
        (let center = Math_pow 2 (z - 1);
             width = Math_pow 2 (z - 6);
             mn = center - width / 2;
             mx = center + width / 2 - 1
         in x \<ge> mn \<and> x \<le> mx \<and> y \<ge> mn \<and> y \<le> mx)
      else False)"

subsection \<open>Accessors\<close>

text \<open>
  An accessor called without its first argument returns the field; called with it, it
  stores the value and returns \<open>this\<close>. Either way the tiler is returned as the state.
\<close>

datatype 'a accessed = Value 'a | This

definition tileSize :: "real option \<Rightarrow> Tiler \<Rightarrow> real accessed \<times> Tiler" where
  "tileSize val this =
     (case val of
        None \<Rightarrow> (Value (f_tileSize this), this)
      | Some v \<Rightarrow> (This, this\<lparr>f_tileSize := v\<rparr>))"

definition zoomRange :: "real option \<Rightarrow> real option \<Rightarrow> Tiler \<Rightarrow> Vec2 accessed \<times> Tiler" where
  "zoomRange mn mx this =
     (case mn of
        None \<Rightarrow> (Value (f_zoomRange this), this)
      | Some lo \<Rightarrow>
          (let hi = (case mx of None \<Rightarrow> lo | Some h \<Rightarrow> h)
           in (This, this\<lparr>f_zoomRange := (lo, hi)\<rparr>)))"

definition margin :: "real option \<Rightarrow> Tiler \<Rightarrow> real accessed \<times> Tiler" where
  "margin val this =
     (case val of
        None \<Rightarrow> (Value (f_margin this), this)
      | Some v \<Rightarrow> (This, this\<lparr>f_margin := v\<rparr>))"

definition skipNullIsland :: "bool option \<Rightarrow> Tiler \<Rightarrow> bool accessed \<times> Tiler" where
  "skipNullIsland val this =
     (case val of
        None \<Rightarrow> (Value (f_skipNullIsland this), this)
      | Some v \<Rightarrow> (This, this\<lparr>f_skipNullIsland := v\<rparr>))"

subsection \<open>getTiles\<close>

text \<open>
  The local constants of \<open>getTiles\<close>, in the order of the source, each as a function of
  the tiler (\<open>this\<close>) and the projection.
\<close>

definition getTiles_zFrac :: "Tiler \<Rightarrow> Projection \<Rightarrow> real" where
  "getTiles_zFrac this projection = geoScaleToZoom (scale projection) (f_tileSize this)"

definition getTiles_z :: "Tiler \<Rightarrow> Projection \<Rightarrow> real" where
  "getTiles_z this projection =
     clamp (Math_round (getTiles_zFrac this projection))
       (fst (f_zoomRange this)) (snd (f_zoomRange this))"

definition getTiles_minTile :: real where
  "getTiles_minTile = 0"

definition getTiles_maxTile :: "Tiler \<Rightarrow> Projection \<Rightarrow> real" where
  "getTiles_maxTile this projection = Math_pow 2 (getTiles_z this projection) - 1"

definition getTiles_log2ts :: "Tiler \<Rightarrow> real" where
  "getTiles_log2ts this = Math_log (f_tileSize this) * Math_LOG2E"

definition getTiles_k :: "Tiler \<Rightarrow> Projection \<Rightarrow> real" where
  "getTiles_k this projection =
     Math_pow 2 (getTiles_zFrac this projection - getTiles_z this projection
                 + getTiles_log2ts this)"

definition getTiles_origin :: "Projection \<Rightarrow> Vec2" where
  "getTiles_origin projection =
     (scale projection * Math_PI - fst (translate projection),
      scale projection * Math_PI - snd (translate projection))"

definition getTiles_viewMin :: "Projection \<Rightarrow> Vec2" where
  "getTiles_viewMin projection =
     (fst (getTiles_origin projection) + fst (fst (dimensions projection)),
      snd (getTiles_origin projection) + snd (fst (dimensions projection)))"

definition getTiles_viewMax :: "Projection \<Rightarrow> Vec2" where
  "getTiles_viewMax projection =
     (fst (getTiles_origin projection) + fst (snd (dimensions projection)),
      snd (getTiles_origin projection) + snd (snd (dimensions projection)))"

definition getTiles_viewExtent :: "Projection \<Rightarrow> Extent" where
  "getTiles_viewExtent projection =
     new_Extent (getTiles_viewMin projection) (getTiles_viewMax projection)"

definition getTiles_worldOrigin :: "Tiler \<Rightarrow> Projection \<Rightarrow> real" where
  "getTiles_worldOrigin this projection =
     (Math_pow 2 (getTiles_z this projection) / 2) * f_tileSize this"

definition getTiles_worldScale :: "Tiler \<Rightarrow> Projection \<Rightarrow> real" where
  "getTiles_worldScale this projection =
     geoZoomToScale (getTiles_z this projection) (f_tileSize this)"

definition getTiles_cols :: "Tiler \<Rightarrow> Projection \<Rightarrow> error + real list" where
  "getTiles_cols this projection =
     range'
       (clamp (Math_floor (fst (getTiles_viewMin projection) / getTiles_k this projection)
                 - f_margin this)
          getTiles_minTile (getTiles_maxTile this projection))
       (clamp (Math_floor (fst (getTiles_viewMax projection) / getTiles_k this projection)
                 + f_margin this)
          getTiles_minTile (getTiles_maxTile this projection))"

definition getTiles_rows :: "Tiler \<Rightarrow> Projection \<Rightarrow> error + real list" where
  "getTiles_rows this projection =
     range'
       (clamp (Math_floor (snd (getTiles_viewMin projection) / getTiles_k this projection)
                 - f_margin this)
          getTiles_minTile (getTiles_maxTile this projection))
       (clamp (Math_floor (snd (getTiles_viewMax projection) / getTiles_k this projection)
                 + f_margin this)
          getTiles_minTile (getTiles_maxTile this projection))"

text \<open>
  The tile built in the body of the inner loop for column \<open>x\<close> and row \<open>y\<close>. The
  parameter \<open>invert\<close> is \<open>Projection.invert\<close>, applied to the translation and scale of
  \<open>worldProjection\<close>.
\<close>

definition getTiles_tile ::
  "(Vec2 \<Rightarrow> real \<Rightarrow> Vec2 \<Rightarrow> Vec2) \<Rightarrow> Tiler \<Rightarrow> Projection \<Rightarrow> real \<Rightarrow> real \<Rightarrow> Tile" where
  "getTiles_tile invert this projection x y =
     (let worldOrigin = getTiles_worldOrigin this projection;
          worldScale = getTiles_worldScale this projection;
          v = (x, y, getTiles_z this projection);
          tileMin = (x * f_tileSize this, y * f_tileSize this);
          tileMax = ((x + 1) * f_tileSize this, (y + 1) * f_tileSize this);
          tileExtent = new_Extent tileMin tileMax;
          visible = intersects (getTiles_viewExtent projection) tileExtent;
          wgs84Min = invert (worldOrigin, worldOrigin) worldScale (fst tileMin, snd tileMax);
          wgs84Max = invert (worldOrigin, worldOrigin) worldScale (fst tileMax, snd tileMin)
      in \<lparr> tile_id = Vec3_toString v,
           xyz = v,
           pxExtent = new_Extent tileMin tileMax,
           wgs84Extent = new_Extent wgs84Min wgs84Max,
           isVisible = visible \<rparr>)"

text \<open>
  One pass of the inner loop body: \<open>continue\<close> near Null Island when the flag is set,
  otherwise \<open>unshift\<close> a visible tile and \<open>push\<close> a tile of the margin.
\<close>

definition getTiles_body ::
  "(Vec2 \<Rightarrow> real \<Rightarrow> Vec2 \<Rightarrow> Vec2) \<Rightarrow> Tiler \<Rightarrow> Projection \<Rightarrow> real \<Rightarrow> Tile list \<Rightarrow> real
     \<Rightarrow> Tile list" where
  "getTiles_body invert this projection y acc x =
     (if f_skipNullIsland this \<and> isNearNullIsland x y (getTiles_z this projection) then acc
      else
        (let tile = getTiles_tile invert this projection x y
         in if isVisible tile then tile # acc else acc @ [tile]))"

text \<open>
  \<open>getTiles\<close> returns its result, or the error it stops with, and the tiler as it leaves
  it. The two loops are left folds over \<open>rows\<close> and \<open>cols\<close>.

  The first two branches stand for the source's arithmetic outside the finite numbers.
  For a negative scale \<open>zFrac\<close> is \<open>NaN\<close>, and for a tile size that is negative or zero
  \<open>log2ts\<close> is \<open>NaN\<close> or \<open>-Infinity\<close> against a \<open>zFrac\<close> of \<open>Infinity\<close> or \<open>NaN\<close>;
  either way \<open>k\<close> is \<open>NaN\<close>, \<open>clamp\<close> returns \<open>NaN\<close> for every bound, and
  \<open>Array(NaN)\<close> throws \<open>RangeError\<close> in \<open>range\<close> before any tile is built. At scale 0
  (with a positive tile size) the source goes on with \<open>zFrac = -Infinity\<close> and \<open>k = 0\<close>;
  the model does not follow it there and stops with \<open>NotFinite\<close>.
\<close>

definition getTiles ::
  "(Vec2 \<Rightarrow> real \<Rightarrow> Vec2 \<Rightarrow> Vec2) \<Rightarrow> Tiler \<Rightarrow> Projection \<Rightarrow> (error + TileResult) \<times> Tiler" where
  "getTiles invert this projection =
     (if scale projection < 0 \<or> f_tileSize this \<le> 0 then (Inl RangeError, this)
      else if scale projection = 0 then (Inl NotFinite, this)
      else
        (case getTiles_cols this projection of
           Inl e \<Rightarrow> (Inl e, this)
         | Inr cols \<Rightarrow>
             (case getTiles_rows this projection of
                Inl e \<Rightarrow> (Inl e, this)
              | Inr rows \<Rightarrow>
                  (Inr \<lparr> tiles =
                          foldl (\<lambda>acc y. foldl (getTiles_body invert this projection y) acc cols)
                            [] rows \<rparr>,
                   this))))"

section \<open>Notions used to state the properties\<close>

text \<open>
  The inner loop passes over a tile when the flag is set and the tile is near Null Island.
\<close>

definition skipped :: "Tiler \<Rightarrow> Projection \<Rightarrow> real \<Rightarrow> real \<Rightarrow> bool" where
  "skipped this projection y x =
     (f_skipNullIsland this \<and> isNearNullIsland x y (getTiles_z this projection))"

text \<open>\<open>isNearNullIsland\<close> applied to the coordinates of a tile.\<close>

definition nearNullIsland :: "Tile \<Rightarrow> bool" where
  "nearNullIsland t = (case xyz t of (x, y, z) \<Rightarrow> isNearNullIsland x y z)"

text \<open>
  The tiles that the loops of \<open>getTiles\<close> build, in the order in which they build them:
  row by row, and within a row column by column.
\<close>

definition enum_row ::
  "(Vec2 \<Rightarrow> real \<Rightarrow> Vec2 \<Rightarrow> Vec2) \<Rightarrow> Tiler \<Rightarrow> Projection \<Rightarrow> real list \<Rightarrow> real \<Rightarrow> Tile list" where
  "enum_row invert this projection cols y =
     map (\<lambda>x. getTiles_tile invert this projection x y)
       (filter (\<lambda>x. \<not> skipped this projection y x) cols)"

definition enumeration ::
  "(Vec2 \<Rightarrow> real \<Rightarrow> Vec2 \<Rightarrow> Vec2) \<Rightarrow> Tiler \<Rightarrow> Projection \<Rightarrow> real list \<Rightarrow> real list \<Rightarrow> Tile list" where
  "enumeration invert this projection cols rows =
     concat (map (enum_row invert this projection cols) rows)"

text \<open>
  The order in which the result holds an enumeration: its visible tiles reversed, then its
  other tiles.
\<close>

definition visibleFirst :: "Tile list \<Rightarrow> Tile list" where
  "visibleFirst ts = rev (filter isVisible ts) @ filter (\<lambda>t. \<not> isVisible t) ts"

text \<open>
  Row-major order on tiles: by row \<open>y\<close> first, by column \<open>x\<close> within a row.
\<close>

definition rowMajorBefore :: "Tile \<Rightarrow> Tile \<Rightarrow> bool" where
  "rowMajorBefore a b =
     (case (xyz a, xyz b) of
        ((xa, ya, za), (xb, yb, zb)) \<Rightarrow> ya < yb \<or> (ya = yb \<and> xa < xb))"




section \<open>Concrete tilers and projections\<close>

text \<open>
  A stand-in for \<open>Projection.invert\<close> where a concrete one is needed: it returns the
  pixel point.
\<close>

definition identityInvert :: "Vec2 \<Rightarrow> real \<Rightarrow> Vec2 \<Rightarrow> Vec2" where
  "identityInvert t k point = point"



text \<open>
  A viewport of one tile's size centred on Null Island at zoom 7: in world pixels it is
  the square from 16256 to 16512, which overlaps the columns and rows 63 and 64.
\<close>

definition nullIslandAtZoom7 :: Projection where
  "nullIslandAtZoom7 =
     \<lparr> translate = (128, 128), scale = 16384 / pi, dimensions = ((0, 0), (256, 256)) \<rparr>"


definition marginTiler :: Tiler where
  "marginTiler = snd (margin (Some 1) new_Tiler)"

section \<open>Auxiliary facts\<close>

subsection \<open>The square around Null Island\<close>

lemma near_eq:
  "isNearNullIsland x y z =
     (7 \<le> z \<and>
      2 powr (z - 1) - 2 powr (z - 7) \<le> x \<and> x \<le> 2 powr (z - 1) + 2 powr (z - 7) - 1 \<and>
      2 powr (z - 1) - 2 powr (z - 7) \<le> y \<and> y \<le> 2 powr (z - 1) + 2 powr (z - 7) - 1)"
proof -
  have "2 powr (z - 6) / 2 = (2::real) powr (z - 7)"
    using powr_diff [of 2 "z - 6" 1] by simp
  then show ?thesis
    by (auto simp: isNearNullIsland_def Math_pow_def Let_def)
qed

subsection \<open>The loops and the result\<close>

lemma inner_loop:
  "foldl (getTiles_body invert this projection y) acc cols =
     rev (filter isVisible (enum_row invert this projection cols y)) @ acc @
     filter (\<lambda>t. \<not> isVisible t) (enum_row invert this projection cols y)"
  by (induction cols arbitrary: acc)
     (simp_all add: enum_row_def getTiles_body_def skipped_def Let_def)

lemma outer_loop:
  "foldl (\<lambda>acc y. foldl (getTiles_body invert this projection y) acc cols) acc rows =
     rev (filter isVisible (enumeration invert this projection cols rows)) @ acc @
     filter (\<lambda>t. \<not> isVisible t) (enumeration invert this projection cols rows)"
  by (induction rows arbitrary: acc) (simp_all add: enumeration_def inner_loop)

lemma getTiles_Inr:
  "fst (getTiles invert this projection) = Inr r \<longleftrightarrow>
     0 < scale projection \<and> 0 < f_tileSize this \<and>
     (\<exists>cols rows. getTiles_cols this projection = Inr cols \<and>
        getTiles_rows this projection = Inr rows \<and>
        tiles r = visibleFirst (enumeration invert this projection cols rows))"
  by (cases r) (auto simp: getTiles_def outer_loop visibleFirst_def split: sum.splits)

subsection \<open>Ranges\<close>

lemma range_Inr:
  "range' a b = Inr xs \<longleftrightarrow>
     1 + b - a = of_int \<lfloor>1 + b - a\<rfloor> \<and> 0 \<le> 1 + b - a \<and> 1 + b - a < 2 ^ 32 \<and>
     xs = map (\<lambda>i. a + real i) [0 ..< nat \<lfloor>1 + b - a\<rfloor>]"
  unfolding range'_def Array_keys_def by (auto simp: comp_def)

lemma range_nat:
  "n < 2 ^ 32 \<Longrightarrow> range' a (a + real n - 1) = Inr (map (\<lambda>i. a + real i) [0 ..< n])"
  by (simp add: range_Inr)

subsection \<open>Zoom and scale\<close>

lemma zFrac_zoomToScale:
  assumes "0 < f_tileSize this" "scale projection = geoZoomToScale z (f_tileSize this)"
  shows "getTiles_zFrac this projection = z"
proof -
  have "f_tileSize this * 2 powr z / (2 * pi) * (2 * pi) / f_tileSize this = 2 powr z"
    using assms(1) by simp
  then show ?thesis
    by (simp add: getTiles_zFrac_def geoScaleToZoom_def geoZoomToScale_def assms(2))
qed

lemma log2ts_eq: "getTiles_log2ts this = log 2 (f_tileSize this)"
  by (simp add: getTiles_log2ts_def Math_log_def Math_LOG2E_def log_def)


lemma Math_round_of_int: "Math_round (of_int i) = of_int i"
  by (simp add: Math_round_def)


lemma k_at_integer_zoom:
  assumes "0 < f_tileSize this" "getTiles_zFrac this projection = getTiles_z this projection"
  shows "getTiles_k this projection = f_tileSize this"
  using assms by (simp add: getTiles_k_def log2ts_eq Math_pow_def)

subsection \<open>The whole world on the default tiler\<close>

lemma new_Tiler_simps:
  "f_tileSize new_Tiler = 256" "f_zoomRange new_Tiler = (0, 24)" "f_margin new_Tiler = 0"
  "f_skipNullIsland new_Tiler = False"
  by (simp_all add: new_Tiler_def)


lemma marginTiler_eq: "marginTiler = new_Tiler\<lparr>f_margin := 1\<rparr>"
  by (simp add: marginTiler_def margin_def)




lemma tile_simps:
  "xyz (getTiles_tile invert this projection x y) = (x, y, getTiles_z this projection)"
  "tile_id (getTiles_tile invert this projection x y) =
     Vec3_toString (x, y, getTiles_z this projection)"
  "isVisible (getTiles_tile invert this projection x y) =
     intersects (getTiles_viewExtent projection)
       (new_Extent (x * f_tileSize this, y * f_tileSize this)
          ((x + 1) * f_tileSize this, (y + 1) * f_tileSize this))"
  by (simp_all add: getTiles_tile_def Let_def)


lemma enumeration_noskip:
  "\<not> f_skipNullIsland this \<Longrightarrow>
   enumeration invert this projection cols rows =
     concat (map (\<lambda>y. map (\<lambda>x. getTiles_tile invert this projection x y) cols) rows)"
  by (simp add: enumeration_def enum_row_def [abs_def] skipped_def)

lemma length_concat_const:
  "length (concat (map (\<lambda>y. map (f y) cols) rows)) = length rows * length cols"
  by (induction rows) simp_all






subsection \<open>Order of the enumeration\<close>

lemma set_visibleFirst: "set (visibleFirst ts) = set ts"
  by (auto simp: visibleFirst_def)

lemma length_visibleFirst: "length (visibleFirst ts) = length ts"
  unfolding visibleFirst_def using sum_length_filter_compl [of isVisible ts] by simp

lemma in_enumeration:
  "t \<in> set (enumeration invert this projection cols rows) \<longleftrightarrow>
     (\<exists>x \<in> set cols. \<exists>y \<in> set rows. \<not> skipped this projection y x \<and>
        t = getTiles_tile invert this projection x y)"
  by (auto simp: enumeration_def enum_row_def)

lemma range_sorted: "range' a b = Inr xs \<Longrightarrow> sorted_wrt (<) xs"
  by (auto simp: range_Inr sorted_wrt_map intro: sorted_wrt_mono_rel [OF _ sorted_wrt_upt])

lemma enum_row_sorted:
  "sorted_wrt (<) cols \<Longrightarrow> sorted_wrt rowMajorBefore (enum_row invert this projection cols y)"
  unfolding enum_row_def sorted_wrt_map
  by (rule sorted_wrt_filter) (simp add: rowMajorBefore_def tile_simps)

lemma enumeration_sorted:
  "sorted_wrt (<) cols \<Longrightarrow> sorted_wrt (<) rows \<Longrightarrow>
   sorted_wrt rowMajorBefore (enumeration invert this projection cols rows)"
proof (induction rows)
  case Nil
  then show ?case by (simp add: enumeration_def)
next
  case (Cons y rows)
  have "enumeration invert this projection cols (y # rows) =
          enum_row invert this projection cols y @ enumeration invert this projection cols rows"
    by (simp add: enumeration_def)
  moreover have "\<forall>a \<in> set (enum_row invert this projection cols y).
      \<forall>b \<in> set (enumeration invert this projection cols rows). rowMajorBefore a b"
    using Cons.prems(2)
    by (auto simp: in_enumeration enum_row_def rowMajorBefore_def tile_simps)
  ultimately show ?case
    using Cons enum_row_sorted [of cols invert this projection y]
    by (simp add: sorted_wrt_append)
qed

lemma visibleFirst_parts:
  "filter isVisible (visibleFirst ts) = rev (filter isVisible ts)"
  "filter (\<lambda>t. \<not> isVisible t) (visibleFirst ts) = filter (\<lambda>t. \<not> isVisible t) ts"
  by (simp_all add: visibleFirst_def)

subsection \<open>Clamped tile indices are integers\<close>













subsection \<open>Ranges of well-formed input\<close>

lemma integer_zoom:
  assumes "0 < f_tileSize this"
    and "scale projection = geoZoomToScale (of_int z) (f_tileSize this)"
    and "fst (f_zoomRange this) \<le> of_int z" "of_int z \<le> snd (f_zoomRange this)"
  shows "getTiles_z this projection = of_int z"
    and "getTiles_k this projection = f_tileSize this"
proof -
  have zf: "getTiles_zFrac this projection = of_int z"
    using assms(1,2) by (rule zFrac_zoomToScale)
  show z: "getTiles_z this projection = of_int z"
    using assms(3,4) by (simp add: getTiles_z_def zf Math_round_of_int clamp_def)
  show "getTiles_k this projection = f_tileSize this"
    using assms(1) zf z by (simp add: k_at_integer_zoom)
qed




subsection \<open>Ranges that are empty or invalid\<close>





subsection \<open>The zoom of the tiles\<close>



subsection \<open>The skip-null-island flag\<close>

lemma skip_update_simps:
  "getTiles_z (this\<lparr>f_skipNullIsland := b\<rparr>) projection = getTiles_z this projection"
  "getTiles_cols (this\<lparr>f_skipNullIsland := b\<rparr>) projection = getTiles_cols this projection"
  "getTiles_rows (this\<lparr>f_skipNullIsland := b\<rparr>) projection = getTiles_rows this projection"
  "getTiles_tile invert (this\<lparr>f_skipNullIsland := b\<rparr>) projection x y =
     getTiles_tile invert this projection x y"
  by (simp_all add: getTiles_z_def getTiles_zFrac_def getTiles_cols_def getTiles_rows_def
      getTiles_k_def getTiles_log2ts_def getTiles_maxTile_def getTiles_tile_def
      getTiles_worldOrigin_def getTiles_worldScale_def)

lemma nearNullIsland_tile:
  "nearNullIsland (getTiles_tile invert this projection x y) =
     isNearNullIsland x y (getTiles_z this projection)"
  by (simp add: nearNullIsland_def tile_simps)

lemma enum_row_skip:
  "enum_row invert (this\<lparr>f_skipNullIsland := True\<rparr>) projection cols y =
     filter (\<lambda>t. \<not> nearNullIsland t)
       (enum_row invert (this\<lparr>f_skipNullIsland := False\<rparr>) projection cols y)"
  by (simp add: enum_row_def skipped_def skip_update_simps filter_map comp_def
      nearNullIsland_tile)

lemma enumeration_skip:
  "enumeration invert (this\<lparr>f_skipNullIsland := True\<rparr>) projection cols rows =
     filter (\<lambda>t. \<not> nearNullIsland t)
       (enumeration invert (this\<lparr>f_skipNullIsland := False\<rparr>) projection cols rows)"
  by (induction rows) (simp_all add: enumeration_def enum_row_skip)

lemma visibleFirst_filter:
  "visibleFirst (filter P ts) = filter P (visibleFirst ts)"
  by (simp add: visibleFirst_def rev_filter conj_commute)

lemma getTiles_skip_eq:
  "fst (getTiles invert (this\<lparr>f_skipNullIsland := True\<rparr>) projection) =
     (case fst (getTiles invert (this\<lparr>f_skipNullIsland := False\<rparr>) projection) of
        Inl e \<Rightarrow> Inl e
      | Inr r \<Rightarrow> Inr \<lparr> tiles = filter (\<lambda>t. \<not> nearNullIsland t) (tiles r) \<rparr>)"
proof (cases "fst (getTiles invert (this\<lparr>f_skipNullIsland := False\<rparr>) projection)")
  case (Inl e)
  then show ?thesis
    by (auto simp: getTiles_def skip_update_simps split: if_splits sum.splits)
next
  case (Inr r)
  then obtain cols rows where g: "0 < scale projection" "0 < f_tileSize this"
    and c: "getTiles_cols this projection = Inr cols"
    and w: "getTiles_rows this projection = Inr rows"
    and t: "tiles r = visibleFirst
              (enumeration invert (this\<lparr>f_skipNullIsland := False\<rparr>) projection cols rows)"
    unfolding getTiles_Inr skip_update_simps by auto
  have "fst (getTiles invert (this\<lparr>f_skipNullIsland := True\<rparr>) projection) =
          Inr \<lparr> tiles = filter (\<lambda>t. \<not> nearNullIsland t) (tiles r) \<rparr>"
    unfolding getTiles_Inr skip_update_simps t
    using g c w by (simp add: enumeration_skip visibleFirst_filter)
  then show ?thesis by (simp add: Inr)
qed

lemma getTiles_noskip_all:
  assumes "getTiles_cols this projection = Inr cols" "getTiles_rows this projection = Inr rows"
    and "fst (getTiles invert (this\<lparr>f_skipNullIsland := False\<rparr>) projection) = Inr r"
  shows "length (tiles r) = length rows * length cols"
    and "xyz ` set (tiles r) =
           {(x, y, getTiles_z this projection) | x y. x \<in> set cols \<and> y \<in> set rows}"
proof -
  let ?t = "this\<lparr>f_skipNullIsland := False\<rparr>"
  have n: "\<not> f_skipNullIsland ?t" by simp
  have t: "tiles r = visibleFirst (enumeration invert ?t projection cols rows)"
    using assms unfolding getTiles_Inr skip_update_simps by simp
  show "length (tiles r) = length rows * length cols"
    unfolding t length_visibleFirst enumeration_noskip [OF n] by (rule length_concat_const)
  show "xyz ` set (tiles r) =
           {(x, y, getTiles_z this projection) | x y. x \<in> set cols \<and> y \<in> set rows}"
  proof (intro set_eqI iffI)
    fix v assume "v \<in> xyz ` set (tiles r)"
    then show "v \<in> {(x, y, getTiles_z this projection) | x y. x \<in> set cols \<and> y \<in> set rows}"
      unfolding t set_visibleFirst
      by (auto simp: in_enumeration tile_simps skip_update_simps)
  next
    fix v assume "v \<in> {(x, y, getTiles_z this projection) | x y. x \<in> set cols \<and> y \<in> set rows}"
    then obtain x y where x: "x \<in> set cols" "y \<in> set rows"
      and v: "v = (x, y, getTiles_z this projection)" by blast
    have "getTiles_tile invert ?t projection x y \<in> set (tiles r)"
      unfolding t set_visibleFirst in_enumeration using x by (auto simp: skipped_def)
    moreover have "xyz (getTiles_tile invert ?t projection x y) = v"
      by (simp add: v tile_simps skip_update_simps)
    ultimately show "v \<in> xyz ` set (tiles r)" by (metis imageI)
  qed
qed

subsection \<open>Null Island at zoom 7\<close>

lemma zoom7_scale: "16384 / pi = geoZoomToScale (of_int 7) 256"
  by (simp add: geoZoomToScale_def)

lemma nullIsland_axes:
  "getTiles_z new_Tiler nullIslandAtZoom7 = 7"
  "getTiles_cols new_Tiler nullIslandAtZoom7 = Inr [63, 64]"
  "getTiles_rows new_Tiler nullIslandAtZoom7 = Inr [63, 64]"
proof -
  have s: "scale nullIslandAtZoom7 = geoZoomToScale (of_int 7) (f_tileSize new_Tiler)"
    by (simp add: nullIslandAtZoom7_def zoom7_scale new_Tiler_simps)
  show z: "getTiles_z new_Tiler nullIslandAtZoom7 = 7"
    using integer_zoom(1) [OF _ s] by (simp add: new_Tiler_simps)
  have k: "getTiles_k new_Tiler nullIslandAtZoom7 = 256"
    using integer_zoom(2) [OF _ s] by (simp add: new_Tiler_simps)
  have m: "getTiles_maxTile new_Tiler nullIslandAtZoom7 = 127"
    by (simp add: getTiles_maxTile_def z Math_pow_def)
  have v: "getTiles_viewMin nullIslandAtZoom7 = (16256, 16256)"
    "getTiles_viewMax nullIslandAtZoom7 = (16512, 16512)"
    by (simp_all add: getTiles_viewMin_def getTiles_viewMax_def getTiles_origin_def
        nullIslandAtZoom7_def Math_PI_def)
  have f: "Math_floor (16256 / 256) = 63" "Math_floor (16512 / 256) = 64"
    by (simp_all add: Math_floor_def)
  have r: "range' 63 64 = Inr [63, 64]"
    using range_nat [of 2 63] by (simp add: upt_rec)
  show "getTiles_cols new_Tiler nullIslandAtZoom7 = Inr [63, 64]"
    unfolding getTiles_cols_def k m v new_Tiler_simps fst_conv snd_conv f getTiles_minTile_def
    by (simp add: clamp_def r)
  show "getTiles_rows new_Tiler nullIslandAtZoom7 = Inr [63, 64]"
    unfolding getTiles_rows_def k m v new_Tiler_simps fst_conv snd_conv f getTiles_minTile_def
    by (simp add: clamp_def r)
qed

subsection \<open>The margin\<close>

lemma margin_update_simps:
  "getTiles_z (this\<lparr>f_margin := m\<rparr>) projection = getTiles_z this projection"
  "getTiles_k (this\<lparr>f_margin := m\<rparr>) projection = getTiles_k this projection"
  "getTiles_maxTile (this\<lparr>f_margin := m\<rparr>) projection = getTiles_maxTile this projection"
  "skipped (this\<lparr>f_margin := m\<rparr>) projection y x = skipped this projection y x"
  by (simp_all add: getTiles_z_def getTiles_zFrac_def getTiles_k_def getTiles_log2ts_def
      getTiles_maxTile_def skipped_def)







lemma margin_axes:
  "getTiles_cols (this\<lparr>f_margin := m\<rparr>) projection =
     range'
       (clamp (Math_floor (fst (getTiles_viewMin projection) / getTiles_k this projection) - m)
          getTiles_minTile (getTiles_maxTile this projection))
       (clamp (Math_floor (fst (getTiles_viewMax projection) / getTiles_k this projection) + m)
          getTiles_minTile (getTiles_maxTile this projection))"
  "getTiles_rows (this\<lparr>f_margin := m\<rparr>) projection =
     range'
       (clamp (Math_floor (snd (getTiles_viewMin projection) / getTiles_k this projection) - m)
          getTiles_minTile (getTiles_maxTile this projection))
       (clamp (Math_floor (snd (getTiles_viewMax projection) / getTiles_k this projection) + m)
          getTiles_minTile (getTiles_maxTile this projection))"
  by (simp_all add: getTiles_cols_def getTiles_rows_def margin_update_simps)


lemma marginTiler_axes:
  "getTiles_cols marginTiler nullIslandAtZoom7 = Inr [62, 63, 64, 65]"
  "getTiles_rows marginTiler nullIslandAtZoom7 = Inr [62, 63, 64, 65]"
proof -
  have s: "scale nullIslandAtZoom7 = geoZoomToScale (of_int 7) (f_tileSize new_Tiler)"
    by (simp add: nullIslandAtZoom7_def zoom7_scale new_Tiler_simps)
  have k: "getTiles_k new_Tiler nullIslandAtZoom7 = 256"
    using integer_zoom(2) [OF _ s] by (simp add: new_Tiler_simps)
  have m: "getTiles_maxTile new_Tiler nullIslandAtZoom7 = 127"
    by (simp add: getTiles_maxTile_def nullIsland_axes Math_pow_def)
  have v: "getTiles_viewMin nullIslandAtZoom7 = (16256, 16256)"
    "getTiles_viewMax nullIslandAtZoom7 = (16512, 16512)"
    by (simp_all add: getTiles_viewMin_def getTiles_viewMax_def getTiles_origin_def
        nullIslandAtZoom7_def Math_PI_def)
  have f: "Math_floor (16256 / 256) = 63" "Math_floor (16512 / 256) = 64"
    by (simp_all add: Math_floor_def)
  have r: "range' 62 65 = Inr [62, 63, 64, 65]"
    using range_nat [of 4 62] by (simp add: upt_rec)
  show "getTiles_cols marginTiler nullIslandAtZoom7 = Inr [62, 63, 64, 65]"
    unfolding marginTiler_eq margin_axes k m v fst_conv snd_conv f getTiles_minTile_def
    by (simp add: clamp_def r)
  show "getTiles_rows marginTiler nullIslandAtZoom7 = Inr [62, 63, 64, 65]"
    unfolding marginTiler_eq margin_axes k m v fst_conv snd_conv f getTiles_minTile_def
    by (simp add: clamp_def r)
qed

lemma marginTiler_visible:
  "isVisible (getTiles_tile invert marginTiler nullIslandAtZoom7 x y) =
     (125 / 2 \<le> x \<and> x \<le> 129 / 2 \<and> 125 / 2 \<le> y \<and> y \<le> 129 / 2)"
proof -
  have v: "getTiles_viewExtent nullIslandAtZoom7 =
      \<lparr> ext_min = (16256, 16256), ext_max = (16512, 16512) \<rparr>"
    by (simp add: getTiles_viewExtent_def getTiles_viewMin_def getTiles_viewMax_def
        getTiles_origin_def nullIslandAtZoom7_def Math_PI_def new_Extent_def)
  show ?thesis
    by (auto simp: tile_simps v marginTiler_eq new_Tiler_simps intersects_def new_Extent_def)
qed

section \<open>The accessors and the state of the tiler\<close>

text \<open>
  C9: the zoom-range setter called with \<open>min\<close> alone stores \<open>[min, min]\<close> and returns
  \<open>this\<close>, and the getter called next returns \<open>[min, min]\<close>.
\<close>

theorem zoomRange_single_value:
  "zoomRange (Some m) None this = (This, this\<lparr>f_zoomRange := (m, m)\<rparr>) \<and>
   fst (zoomRange None None (snd (zoomRange (Some m) None this))) = Value (m, m)"
  by (simp add: zoomRange_def)

text \<open>
  C10: \<open>getTiles\<close> leaves the tiler as it found it, whatever the projection and whether it
  returns tiles or stops with an error: tile size, zoom range, margin and the
  skip-null-island flag are unchanged.
\<close>

theorem getTiles_keeps_configuration:
  "snd (getTiles invert this projection) = this \<and>
   f_tileSize (snd (getTiles invert this projection)) = f_tileSize this \<and>
   f_zoomRange (snd (getTiles invert this projection)) = f_zoomRange this \<and>
   f_margin (snd (getTiles invert this projection)) = f_margin this \<and>
   f_skipNullIsland (snd (getTiles invert this projection)) = f_skipNullIsland this"
  by (simp add: getTiles_def split: sum.splits)

text \<open>
  C8: a second call of \<open>getTiles\<close>, on the tiler as the first call left it and with the
  same projection, has the outcome of the first: the same error, or the same tiles in the
  same order, hence the same ids, the same coordinates and the same visibility flags.
\<close>

theorem getTiles_deterministic:
  "fst (getTiles invert (snd (getTiles invert this projection)) projection) =
     fst (getTiles invert this projection) \<and>
   (case (fst (getTiles invert this projection),
          fst (getTiles invert (snd (getTiles invert this projection)) projection)) of
      (Inr r1, Inr r2) \<Rightarrow>
        map tile_id (tiles r1) = map tile_id (tiles r2) \<and>
        map xyz (tiles r1) = map xyz (tiles r2) \<and>
        map isVisible (tiles r1) = map isVisible (tiles r2)
    | (Inl e1, Inl e2) \<Rightarrow> e1 = e2
    | _ \<Rightarrow> False)"
  by (simp add: getTiles_def split: sum.splits)

section \<open>Null Island\<close>

text \<open>
  C5: \<open>isNearNullIsland\<close> is false below zoom 7; from zoom 7 on it is true exactly when
  \<open>x\<close> and \<open>y\<close> both lie between \<open>2^(z-1) - 2^(z-7)\<close> and \<open>2^(z-1) + 2^(z-7) - 1\<close>. At
  zoom 6 it is false everywhere; at zoom 7 the tile indices (integers) for which it is
  true are 63 and 64 on both axes, so it is false at (63, 65); and it is true at
  (127, 127) at zoom 8.
\<close>

theorem isNearNullIsland_square:
  "(z < 7 \<longrightarrow> \<not> isNearNullIsland x y z) \<and>
   (7 \<le> z \<longrightarrow>
      isNearNullIsland x y z =
        (2 powr (z - 1) - 2 powr (z - 7) \<le> x \<and> x \<le> 2 powr (z - 1) + 2 powr (z - 7) - 1 \<and>
         2 powr (z - 1) - 2 powr (z - 7) \<le> y \<and> y \<le> 2 powr (z - 1) + 2 powr (z - 7) - 1)) \<and>
   \<not> isNearNullIsland x y 6 \<and>
   isNearNullIsland (of_int i) (of_int j) 7 = (i \<in> {63, 64} \<and> j \<in> {63, 64}) \<and>
   \<not> isNearNullIsland 63 65 7 \<and>
   isNearNullIsland 127 127 8"
proof -
  have 1: "z < 7 \<longrightarrow> \<not> isNearNullIsland x y z"
    by (simp add: near_eq)
  have 2: "7 \<le> z \<longrightarrow>
      isNearNullIsland x y z =
        (2 powr (z - 1) - 2 powr (z - 7) \<le> x \<and> x \<le> 2 powr (z - 1) + 2 powr (z - 7) - 1 \<and>
         2 powr (z - 1) - 2 powr (z - 7) \<le> y \<and> y \<le> 2 powr (z - 1) + 2 powr (z - 7) - 1)"
    by (simp add: near_eq)
  have 3: "\<not> isNearNullIsland x y 6"
    by (simp add: near_eq)
  have 4: "isNearNullIsland (of_int i) (of_int j) 7 = (i \<in> {63, 64} \<and> j \<in> {63, 64})"
    by (simp add: near_eq) auto
  have 5: "\<not> isNearNullIsland 63 65 7"
    by (simp add: near_eq)
  have 6: "isNearNullIsland 127 127 8"
    by (simp add: near_eq)
  from 1 2 3 4 5 6 show ?thesis by blast
qed

theorem isNearNullIsland_square_witness:
  "\<not> isNearNullIsland 31 31 6 \<and> isNearNullIsland 63 63 7 \<and> \<not> isNearNullIsland 62 63 7"
  using isNearNullIsland_square [of 6 31 31] isNearNullIsland_square [of 7 63 63]
    isNearNullIsland_square [of 7 62 63]
  by simp

section \<open>The whole world\<close>



section \<open>The order of the result\<close>

text \<open>
  C4: in every result of \<open>getTiles\<close> the visible tiles come before all the others. The
  result is a row-major enumeration (rows ascending, columns ascending within a row) with
  its visible tiles reversed in front and its other tiles behind in the order of the
  enumeration: the visible part of the result descends in row-major order, the rest
  ascends.
\<close>

theorem getTiles_visible_first:
  assumes "fst (getTiles invert this projection) = Inr r"
  shows "(\<exists>enum. sorted_wrt rowMajorBefore enum \<and>
            tiles r = rev (filter isVisible enum) @ filter (\<lambda>t. \<not> isVisible t) enum) \<and>
         tiles r = filter isVisible (tiles r) @ filter (\<lambda>t. \<not> isVisible t) (tiles r) \<and>
         sorted_wrt (\<lambda>a b. rowMajorBefore b a) (filter isVisible (tiles r)) \<and>
         sorted_wrt rowMajorBefore (filter (\<lambda>t. \<not> isVisible t) (tiles r))"
proof -
  from assms obtain cols rows where c: "getTiles_cols this projection = Inr cols"
    and r: "getTiles_rows this projection = Inr rows"
    and t: "tiles r = visibleFirst (enumeration invert this projection cols rows)"
    unfolding getTiles_Inr by blast
  let ?E = "enumeration invert this projection cols rows"
  have s: "sorted_wrt rowMajorBefore ?E"
    using c r by (intro enumeration_sorted range_sorted) (simp_all add: getTiles_cols_def getTiles_rows_def)
  have 1: "\<exists>enum. sorted_wrt rowMajorBefore enum \<and>
            tiles r = rev (filter isVisible enum) @ filter (\<lambda>t. \<not> isVisible t) enum"
    using s t unfolding visibleFirst_def by blast
  have 2: "tiles r = filter isVisible (tiles r) @ filter (\<lambda>t. \<not> isVisible t) (tiles r)"
    unfolding t visibleFirst_parts by (simp add: visibleFirst_def)
  have 3: "sorted_wrt (\<lambda>a b. rowMajorBefore b a) (filter isVisible (tiles r))"
    unfolding t visibleFirst_parts sorted_wrt_rev
    using s by (rule sorted_wrt_filter)
  have 4: "sorted_wrt rowMajorBefore (filter (\<lambda>t. \<not> isVisible t) (tiles r))"
    unfolding t visibleFirst_parts using s by (rule sorted_wrt_filter)
  from 1 2 3 4 show ?thesis by blast
qed

theorem getTiles_visible_first_witness:
  "\<exists>r. fst (getTiles identityInvert marginTiler nullIslandAtZoom7) = Inr r \<and>
       map (\<lambda>t. (fst (xyz t), fst (snd (xyz t)), isVisible t)) (tiles r) =
         [(64, 64, True), (63, 64, True), (64, 63, True), (63, 63, True),
          (62, 62, False), (63, 62, False), (64, 62, False), (65, 62, False),
          (62, 63, False), (65, 63, False), (62, 64, False), (65, 64, False),
          (62, 65, False), (63, 65, False), (64, 65, False), (65, 65, False)] \<and>
       sorted_wrt (\<lambda>a b. rowMajorBefore b a) (filter isVisible (tiles r)) \<and>
       sorted_wrt rowMajorBefore (filter (\<lambda>t. \<not> isVisible t) (tiles r))"
proof -
  have n: "\<not> f_skipNullIsland marginTiler"
    by (simp add: marginTiler_eq new_Tiler_simps)
  have "0 < scale nullIslandAtZoom7" "0 < f_tileSize marginTiler"
    by (simp_all add: nullIslandAtZoom7_def marginTiler_eq new_Tiler_simps)
  then obtain r where r: "fst (getTiles identityInvert marginTiler nullIslandAtZoom7) = Inr r"
    and t: "tiles r = visibleFirst (enumeration identityInvert marginTiler nullIslandAtZoom7
              [62, 63, 64, 65] [62, 63, 64, 65])"
    unfolding getTiles_Inr marginTiler_axes
    by simp (metis TileResult.select_convs(1))
  have m: "map (\<lambda>t. (fst (xyz t), fst (snd (xyz t)), isVisible t)) (tiles r) =
         [(64, 64, True), (63, 64, True), (64, 63, True), (63, 63, True),
          (62, 62, False), (63, 62, False), (64, 62, False), (65, 62, False),
          (62, 63, False), (65, 63, False), (62, 64, False), (65, 64, False),
          (62, 65, False), (63, 65, False), (64, 65, False), (65, 65, False)]"
    unfolding t enumeration_noskip [OF n] visibleFirst_def
    by (simp add: marginTiler_visible tile_simps(1))
  note T = getTiles_visible_first [OF r]
  have s1: "sorted_wrt (\<lambda>a b. rowMajorBefore b a) (filter isVisible (tiles r))"
    using T by (elim conjE)
  have s2: "sorted_wrt rowMajorBefore (filter (\<lambda>t. \<not> isVisible t) (tiles r))"
    using T by (elim conjE)
  show ?thesis
    by (rule exI [of _ r]) (intro conjI r m s1 s2)
qed

section \<open>Zoom clamping\<close>



section \<open>Skipping Null Island\<close>

text \<open>
  C6: with the skip-null-island flag set, \<open>getTiles\<close> stops with the same error as without
  it, or returns the tiles it returns without it less those near Null Island, in the same
  order, so that no tile of its result is near Null Island; with the flag cleared the
  result has one tile for every pair of a row and a column.
\<close>

theorem getTiles_skipNullIsland:
  "fst (getTiles invert (this\<lparr>f_skipNullIsland := True\<rparr>) projection) =
     (case fst (getTiles invert (this\<lparr>f_skipNullIsland := False\<rparr>) projection) of
        Inl e \<Rightarrow> Inl e
      | Inr r \<Rightarrow> Inr \<lparr> tiles = filter (\<lambda>t. \<not> nearNullIsland t) (tiles r) \<rparr>) \<and>
   (fst (getTiles invert (this\<lparr>f_skipNullIsland := True\<rparr>) projection) = Inr r' \<longrightarrow>
      (\<forall>t \<in> set (tiles r'). \<not> nearNullIsland t)) \<and>
   (getTiles_cols this projection = Inr cols \<and> getTiles_rows this projection = Inr rows \<and>
    fst (getTiles invert (this\<lparr>f_skipNullIsland := False\<rparr>) projection) = Inr r \<longrightarrow>
      length (tiles r) = length rows * length cols \<and>
      xyz ` set (tiles r) =
        {(x, y, getTiles_z this projection) | x y. x \<in> set cols \<and> y \<in> set rows})"
proof -
  have 1: "fst (getTiles invert (this\<lparr>f_skipNullIsland := True\<rparr>) projection) =
     (case fst (getTiles invert (this\<lparr>f_skipNullIsland := False\<rparr>) projection) of
        Inl e \<Rightarrow> Inl e
      | Inr r \<Rightarrow> Inr \<lparr> tiles = filter (\<lambda>t. \<not> nearNullIsland t) (tiles r) \<rparr>)"
    by (rule getTiles_skip_eq)
  have 2: "fst (getTiles invert (this\<lparr>f_skipNullIsland := True\<rparr>) projection) = Inr r' \<longrightarrow>
      (\<forall>t \<in> set (tiles r'). \<not> nearNullIsland t)"
    unfolding 1 by (auto split: sum.splits)
  have 3: "getTiles_cols this projection = Inr cols \<and> getTiles_rows this projection = Inr rows \<and>
    fst (getTiles invert (this\<lparr>f_skipNullIsland := False\<rparr>) projection) = Inr r \<longrightarrow>
      length (tiles r) = length rows * length cols \<and>
      xyz ` set (tiles r) =
        {(x, y, getTiles_z this projection) | x y. x \<in> set cols \<and> y \<in> set rows}"
    using getTiles_noskip_all [of this projection cols rows invert r] by blast
  from 1 2 3 show ?thesis by blast
qed

theorem getTiles_skipNullIsland_witness:
  "fst (getTiles identityInvert (new_Tiler\<lparr>f_skipNullIsland := True\<rparr>) nullIslandAtZoom7) =
     Inr \<lparr> tiles = [] \<rparr> \<and>
   (\<exists>r. fst (getTiles identityInvert (new_Tiler\<lparr>f_skipNullIsland := False\<rparr>) nullIslandAtZoom7) =
          Inr r \<and> length (tiles r) = 4)"
proof -
  let ?off = "new_Tiler\<lparr>f_skipNullIsland := False\<rparr>"
  have "0 < scale nullIslandAtZoom7" by (simp add: nullIslandAtZoom7_def)
  then obtain r where r: "fst (getTiles identityInvert ?off nullIslandAtZoom7) = Inr r"
    unfolding getTiles_Inr skip_update_simps nullIsland_axes
    by (simp add: new_Tiler_simps) (metis TileResult.select_convs(1))
  note T = getTiles_skipNullIsland [of identityInvert new_Tiler nullIslandAtZoom7 _
      "[63, 64]" "[63, 64]" r]
  from T r have len: "length (tiles r) = 4"
    and x: "xyz ` set (tiles r) = {(x, y, 7) | x y. x \<in> {63, 64} \<and> y \<in> {63, 64}}"
    by (simp_all add: nullIsland_axes)
  have "\<forall>t \<in> set (tiles r). nearNullIsland t"
  proof
    fix t assume "t \<in> set (tiles r)"
    then have "xyz t \<in> {(x, y, 7) | x y. x \<in> {63, 64} \<and> y \<in> {63, 64}}"
      using x by blast
    then show "nearNullIsland t"
      by (auto simp: nearNullIsland_def near_eq)
  qed
  then have "filter (\<lambda>t. \<not> nearNullIsland t) (tiles r) = []"
    by (simp add: filter_empty_conv)
  with T r have "fst (getTiles identityInvert (new_Tiler\<lparr>f_skipNullIsland := True\<rparr>)
      nullIslandAtZoom7) = Inr \<lparr> tiles = [] \<rparr>"
    by simp
  with r len show ?thesis by blast
qed

section \<open>The margin\<close>



section \<open>Errors\<close>




end
